theory Spec2Isabelle
  imports Complex_Main
begin

section \<open>Values of the program\<close>

text \<open>
  The compositor of the photo-frame generator works on JavaScript numbers. They are
  idealised here as real numbers: the arithmetic of \<open>renderCompositeToCanvas\<close> is
  multiplication, division, subtraction and \<open>Math.max\<close>, and \<open>Math.PI\<close> is \<open>pi\<close>.
  Rounding, \<open>NaN\<close> and the infinities of IEEE doubles are outside the model.

  A dimension property of an image element (\<open>naturalWidth\<close>, \<open>width\<close>, ...) is a
  natural number or \<open>undefined\<close> (\<open>None\<close>). \<open>truthy\<close> is JavaScript's truthiness on
  such a value, \<open>or_else a b\<close> is \<open>a || b\<close>, and \<open>num\<close> reads the number.
\<close>

type_synonym dim = "nat option"

definition truthy :: "dim \<Rightarrow> bool" where
  "truthy d = (case d of None \<Rightarrow> False | Some n \<Rightarrow> n \<noteq> 0)"

definition or_else :: "dim \<Rightarrow> dim \<Rightarrow> dim" where
  "or_else a b = (if truthy a then a else b)"

definition num :: "dim \<Rightarrow> nat" where
  "num d = (case d of None \<Rightarrow> 0 | Some n \<Rightarrow> n)"

text \<open>
  A pixel is a colour with premultiplied alpha, every channel in \<open>[0, 1]\<close>. \<open>over\<close> is
  the source-over operator of the canvas (its default composite operation).
\<close>

record rgba =
  red :: real
  green :: real
  blue :: real
  alpha :: real

definition transparent :: rgba where
  "transparent = \<lparr>red = 0, green = 0, blue = 0, alpha = 0\<rparr>"

definition over :: "rgba \<Rightarrow> rgba \<Rightarrow> rgba" where
  "over src dst =
     \<lparr>red = red src + red dst * (1 - alpha src),
      green = green src + green dst * (1 - alpha src),
      blue = blue src + blue dst * (1 - alpha src),
      alpha = alpha src + alpha dst * (1 - alpha src)\<rparr>"

text \<open>
  An image element: its four dimension properties and its decoded bitmap. The bitmap is
  a sampler over the unit square (\<open>content img u v\<close> with \<open>0 \<le> u, v < 1\<close>), which is
  what \<open>drawImage\<close> stretches over its destination rectangle.
\<close>

record image =
  naturalWidth :: dim
  naturalHeight :: dim
  width :: dim
  height :: dim
  content :: "real \<Rightarrow> real \<Rightarrow> rgba"

text \<open>\<open>CompositeOptions\<close>: every field is optional.\<close>

record CompositeOptions =
  profileScale :: "real option"
  frameScale :: "real option"
  profileRotation :: "real option"
  profileOffsetX :: "real option"
  profileOffsetY :: "real option"

definition dflt :: "real \<Rightarrow> real option \<Rightarrow> real" where
  "dflt d v = (case v of None \<Rightarrow> d | Some x \<Rightarrow> x)"

datatype error = Error string

section \<open>The drawing surface\<close>

text \<open>
  The surface is the canvas element together with its 2D context: the bitmap size, the
  pixels, the current transformation matrix and the stack of saved matrices. A matrix
  \<open>(a, b, c, d, e, f)\<close> maps \<open>(x, y)\<close> to \<open>(a x + c y + e, b x + d y + f)\<close>.
\<close>

record matrix =
  ma :: real
  mb :: real
  mc :: real
  md :: real
  me :: real
  mf :: real

definition identity :: matrix where
  "identity = \<lparr>ma = 1, mb = 0, mc = 0, md = 1, me = 0, mf = 0\<rparr>"

definition to_canvas :: "matrix \<Rightarrow> real \<times> real \<Rightarrow> real \<times> real" where
  "to_canvas m p =
     (ma m * fst p + mc m * snd p + me m, mb m * fst p + md m * snd p + mf m)"

definition to_local :: "matrix \<Rightarrow> real \<times> real \<Rightarrow> (real \<times> real) option" where
  "to_local m p =
     (let det = ma m * md m - mb m * mc m in
      if det = 0 then None
      else Some ((md m * (fst p - me m) - mc m * (snd p - mf m)) / det,
                 (ma m * (snd p - mf m) - mb m * (fst p - me m)) / det))"

record surface =
  canvasWidth :: nat
  canvasHeight :: nat
  pixels :: "int \<Rightarrow> int \<Rightarrow> rgba"
  transform :: matrix
  saved :: "matrix list"

text \<open>
  Assigning \<open>canvas.width\<close> or \<open>canvas.height\<close> sets the bitmap dimensions: the
  bitmap is cleared to transparent black and the context is reset to its default state,
  also when the value assigned is the one the canvas already has.
\<close>

definition set_width :: "nat \<Rightarrow> surface \<Rightarrow> surface" where
  "set_width w s =
     \<lparr>canvasWidth = w, canvasHeight = canvasHeight s,
      pixels = (\<lambda>i j. transparent), transform = identity, saved = []\<rparr>"

definition set_height :: "nat \<Rightarrow> surface \<Rightarrow> surface" where
  "set_height h s =
     \<lparr>canvasWidth = canvasWidth s, canvasHeight = h,
      pixels = (\<lambda>i j. transparent), transform = identity, saved = []\<rparr>"

text \<open>
  The context calls that \<open>renderCompositeToCanvas\<close> makes, and what each does to the
  surface. Pixel \<open>(i, j)\<close> of the canvas is sampled at its centre
  \<open>(i + 1/2, j + 1/2)\<close>; \<open>clearRect\<close> and \<open>drawImage\<close> act on the pixels whose centre
  the current matrix maps into their rectangle, and \<open>restore\<close> on an empty stack does
  nothing.
\<close>

datatype call =
  ClearRect real real real real
| Save
| Translate real real
| Rotate real
| DrawImage image real real real real
| Restore

definition on_canvas :: "surface \<Rightarrow> int \<Rightarrow> int \<Rightarrow> bool" where
  "on_canvas s i j = (0 \<le> i \<and> i < int (canvasWidth s) \<and> 0 \<le> j \<and> j < int (canvasHeight s))"

text \<open>
  \<open>rect_coords m x y w h i j\<close>: where the centre of canvas pixel \<open>(i, j)\<close> lies inside
  the rectangle \<open>(x, y, w, h)\<close> given in the coordinates of matrix \<open>m\<close>, as a point
  of the unit square; \<open>None\<close> when the pixel is outside the rectangle. A negative
  \<open>w\<close> or \<open>h\<close> mirrors the rectangle, as the canvas does.
\<close>

definition rect_coords ::
  "matrix \<Rightarrow> real \<Rightarrow> real \<Rightarrow> real \<Rightarrow> real \<Rightarrow> int \<Rightarrow> int \<Rightarrow> (real \<times> real) option" where
  "rect_coords m x y w h i j =
     (if w = 0 \<or> h = 0 then None
      else case to_local m (real_of_int i + 1 / 2, real_of_int j + 1 / 2) of
             None \<Rightarrow> None
           | Some q \<Rightarrow>
               (let u = (fst q - x) / w; v = (snd q - y) / h in
                if 0 \<le> u \<and> u < 1 \<and> 0 \<le> v \<and> v < 1 then Some (u, v) else None))"

text \<open>\<open>layer\<close>: the pixel that drawing an image contributes at canvas pixel \<open>(i, j)\<close>.\<close>

definition layer ::
  "matrix \<Rightarrow> image \<Rightarrow> real \<Rightarrow> real \<Rightarrow> real \<Rightarrow> real \<Rightarrow> int \<Rightarrow> int \<Rightarrow> rgba" where
  "layer m img dx dy dw dh i j =
     (case rect_coords m dx dy dw dh i j of
        None \<Rightarrow> transparent
      | Some (u, v) \<Rightarrow> content img u v)"

fun exec :: "call \<Rightarrow> surface \<Rightarrow> surface" where
  "exec (ClearRect x y w h) s =
     s\<lparr>pixels := (\<lambda>i j.
        if on_canvas s i j \<and> rect_coords (transform s) x y w h i j \<noteq> None
        then transparent else pixels s i j)\<rparr>"
| "exec Save s = s\<lparr>saved := transform s # saved s\<rparr>"
| "exec (Translate tx ty) s =
     s\<lparr>transform := (transform s)
        \<lparr>me := ma (transform s) * tx + mc (transform s) * ty + me (transform s),
         mf := mb (transform s) * tx + md (transform s) * ty + mf (transform s)\<rparr>\<rparr>"
| "exec (Rotate r) s =
     s\<lparr>transform := (transform s)
        \<lparr>ma := ma (transform s) * cos r + mc (transform s) * sin r,
         mb := mb (transform s) * cos r + md (transform s) * sin r,
         mc := mc (transform s) * cos r - ma (transform s) * sin r,
         md := md (transform s) * cos r - mb (transform s) * sin r\<rparr>\<rparr>"
| "exec (DrawImage img dx dy dw dh) s =
     s\<lparr>pixels := (\<lambda>i j.
        if on_canvas s i j
        then over (layer (transform s) img dx dy dw dh i j) (pixels s i j)
        else pixels s i j)\<rparr>"
| "exec Restore s =
     (case saved s of
        [] \<Rightarrow> s
      | m # ms \<Rightarrow> s\<lparr>transform := m, saved := ms\<rparr>)"

fun run :: "call list \<Rightarrow> surface \<Rightarrow> surface" where
  "run [] s = s"
| "run (c # cs) s = run cs (exec c s)"

section \<open>The compositor\<close>

text \<open>
  \<open>baseProfileScale\<close> is the constant of that name: the cover scale, read from the
  canvas after it has taken the frame's size.
\<close>

text \<open>
  \<open>drawCalls\<close> is the body of \<open>renderCompositeToCanvas\<close> after the canvas has been
  resized: the local constants, in the order of the source, and the context calls they
  feed. \<open>canvas\<close> is the resized surface, so \<open>canvas.width\<close> and \<open>canvas.height\<close>
  are read from it.
\<close>

definition baseProfileScale :: "surface \<Rightarrow> real \<Rightarrow> real \<Rightarrow> real" where
  "baseProfileScale canvas profileWidth profileHeight =
     max (real (canvasWidth canvas) / profileWidth) (real (canvasHeight canvas) / profileHeight)"

definition drawCalls ::
  "surface \<Rightarrow> image \<Rightarrow> image \<Rightarrow> real \<Rightarrow> real \<Rightarrow> real \<Rightarrow> real \<Rightarrow> CompositeOptions \<Rightarrow> call list" where
  "drawCalls canvas profile frame frameWidth frameHeight profileWidth profileHeight opts =
     (let scaledFrameWidth = frameWidth * dflt 1 (frameScale opts);
          scaledFrameHeight = frameHeight * dflt 1 (frameScale opts);
          baseScale = baseProfileScale canvas profileWidth profileHeight;
          finalProfileWidth = profileWidth * baseScale * dflt 1 (profileScale opts);
          finalProfileHeight = profileHeight * baseScale * dflt 1 (profileScale opts);
          baseProfileOffsetX = (real (canvasWidth canvas) - finalProfileWidth) / 2;
          baseProfileOffsetY = (real (canvasHeight canvas) - finalProfileHeight) / 2;
          profileCenterX = baseProfileOffsetX + finalProfileWidth / 2 + dflt 0 (profileOffsetX opts);
          profileCenterY = baseProfileOffsetY + finalProfileHeight / 2 + dflt 0 (profileOffsetY opts);
          rotationRadians = (dflt 0 (profileRotation opts) * pi) / 180;
          frameOffsetX = (real (canvasWidth canvas) - scaledFrameWidth) / 2;
          frameOffsetY = (real (canvasHeight canvas) - scaledFrameHeight) / 2
      in [ClearRect 0 0 (real (canvasWidth canvas)) (real (canvasHeight canvas)),
          Save,
          Translate profileCenterX profileCenterY,
          Rotate rotationRadians,
          DrawImage profile (- finalProfileWidth / 2) (- finalProfileHeight / 2)
            finalProfileWidth finalProfileHeight,
          Restore,
          DrawImage frame frameOffsetX frameOffsetY scaledFrameWidth scaledFrameHeight])"

text \<open>
  \<open>renderCompositeToCanvas\<close> returns the error it throws, if any, and the surface as
  the call leaves it.
\<close>

definition renderCompositeToCanvas ::
  "surface \<Rightarrow> image \<Rightarrow> image \<Rightarrow> CompositeOptions \<Rightarrow> error option \<times> surface" where
  "renderCompositeToCanvas canvas profile frame opts =
     (let frameWidth = or_else (naturalWidth frame) (width frame);
          frameHeight = or_else (naturalHeight frame) (height frame);
          profileWidth = or_else (naturalWidth profile) (width profile);
          profileHeight = or_else (naturalHeight profile) (height profile)
      in if \<not> truthy frameWidth \<or> \<not> truthy frameHeight
            \<or> \<not> truthy profileWidth \<or> \<not> truthy profileHeight
         then (Some (Error ''Invalid image dimensions''), canvas)
         else
           (let canvas1 = set_width (num frameWidth) canvas;
                canvas2 = set_height (num frameHeight) canvas1
            in (None,
                run (drawCalls canvas2 profile frame
                       (real (num frameWidth)) (real (num frameHeight))
                       (real (num profileWidth)) (real (num profileHeight)) opts)
                    canvas2)))"

section \<open>The export wrapper\<close>

text \<open>
  \<open>mergeImages\<close> is event driven: it creates a canvas, two image elements and two
  object URLs, installs the load and error handlers, and settles its promise from a
  handler or from the callback of \<open>canvas.toBlob\<close>. The model runs the handlers over
  the list of events that the browser delivers. \<open>liveUrls\<close> are the object URLs that
  have been created and not revoked; \<open>pendingBlobs\<close> counts the \<open>toBlob\<close> calls whose
  callback has not run yet; a \<open>BlobCallback\<close> event while none is pending does not
  occur in a browser and is ignored. A promise settles once: later calls of
  \<open>resolve\<close> and \<open>reject\<close> do nothing.
\<close>

datatype url = ProfileUrl | FrameUrl

datatype blob = Png surface

datatype promise = Pending | Resolved blob | Rejected error

datatype event =
  ProfileOnload image
| FrameOnload image
| ProfileOnerror
| FrameOnerror
| BlobCallback "blob option"

record merge_state =
  canvas :: surface
  profile :: image
  frame :: image
  profileLoaded :: bool
  frameLoaded :: bool
  liveUrls :: "url set"
  pendingBlobs :: nat
  settled :: promise

definition resolve :: "blob \<Rightarrow> merge_state \<Rightarrow> merge_state" where
  "resolve b s = (if settled s = Pending then s\<lparr>settled := Resolved b\<rparr> else s)"

definition reject :: "error \<Rightarrow> merge_state \<Rightarrow> merge_state" where
  "reject e s = (if settled s = Pending then s\<lparr>settled := Rejected e\<rparr> else s)"

definition revokeObjectURL :: "url \<Rightarrow> merge_state \<Rightarrow> merge_state" where
  "revokeObjectURL u s = s\<lparr>liveUrls := liveUrls s - {u}\<rparr>"

text \<open>\<open>new Image()\<close> and \<open>document.createElement('canvas')\<close>.\<close>

definition newImage :: image where
  "newImage =
     \<lparr>naturalWidth = Some 0, naturalHeight = Some 0, width = Some 0, height = Some 0,
      content = (\<lambda>u v. transparent)\<rparr>"

definition newCanvas :: surface where
  "newCanvas =
     \<lparr>canvasWidth = 300, canvasHeight = 150, pixels = (\<lambda>i j. transparent),
      transform = identity, saved = []\<rparr>"

text \<open>The options as \<open>mergeImages\<close> passes them on: destructured with their defaults.\<close>

definition withDefaults :: "CompositeOptions \<Rightarrow> CompositeOptions" where
  "withDefaults options =
     \<lparr>profileScale = Some (dflt 1 (profileScale options)),
      frameScale = Some (dflt 1 (frameScale options)),
      profileRotation = Some (dflt 0 (profileRotation options)),
      profileOffsetX = Some (dflt 0 (profileOffsetX options)),
      profileOffsetY = Some (dflt 0 (profileOffsetY options))\<rparr>"

definition tryMerge :: "CompositeOptions \<Rightarrow> merge_state \<Rightarrow> merge_state" where
  "tryMerge options s =
     (if \<not> profileLoaded s \<or> \<not> frameLoaded s then s
      else case renderCompositeToCanvas (canvas s) (profile s) (frame s) (withDefaults options) of
             (Some err, c) \<Rightarrow>
               reject err
                 (revokeObjectURL FrameUrl (revokeObjectURL ProfileUrl (s\<lparr>canvas := c\<rparr>)))
           | (None, c) \<Rightarrow> s\<lparr>canvas := c, pendingBlobs := Suc (pendingBlobs s)\<rparr>)"

fun handle :: "CompositeOptions \<Rightarrow> merge_state \<Rightarrow> event \<Rightarrow> merge_state" where
  "handle options s (ProfileOnload img) =
     tryMerge options (s\<lparr>profile := img, profileLoaded := True\<rparr>)"
| "handle options s (FrameOnload img) =
     tryMerge options (s\<lparr>frame := img, frameLoaded := True\<rparr>)"
| "handle options s ProfileOnerror =
     reject (Error ''Failed to load profile image'')
       (revokeObjectURL FrameUrl (revokeObjectURL ProfileUrl s))"
| "handle options s FrameOnerror =
     reject (Error ''Failed to load frame image'')
       (revokeObjectURL FrameUrl (revokeObjectURL ProfileUrl s))"
| "handle options s (BlobCallback b) =
     (if pendingBlobs s = 0 then s
      else case b of
             Some png \<Rightarrow>
               resolve png
                 (revokeObjectURL FrameUrl (revokeObjectURL ProfileUrl
                    (s\<lparr>pendingBlobs := pendingBlobs s - 1\<rparr>)))
           | None \<Rightarrow>
               reject (Error ''Failed to create blob'')
                 (revokeObjectURL FrameUrl (revokeObjectURL ProfileUrl
                    (s\<lparr>pendingBlobs := pendingBlobs s - 1\<rparr>))))"

definition started :: merge_state where
  "started =
     \<lparr>canvas = newCanvas, profile = newImage, frame = newImage,
      profileLoaded = False, frameLoaded = False, liveUrls = {ProfileUrl, FrameUrl},
      pendingBlobs = 0, settled = Pending\<rparr>"

text \<open>
  \<open>mergeImages ctx options events\<close>: the state after \<open>events\<close>; \<open>ctx\<close> tells whether
  \<open>canvas.getContext('2d')\<close> returned a context. Without one the promise is rejected
  before any URL is created and no handler is installed.
\<close>

definition mergeImages :: "bool \<Rightarrow> CompositeOptions \<Rightarrow> event list \<Rightarrow> merge_state" where
  "mergeImages ctx options events =
     (if \<not> ctx
      then reject (Error ''Could not get canvas context'') (started\<lparr>liveUrls := {}\<rparr>)
      else foldl (handle options) started events)"

section \<open>Vocabulary of the properties\<close>

text \<open>
  The effective dimensions of an image as the compositor reads them, the check it makes
  on them, the surface after the two assignments to \<open>canvas.width\<close> and
  \<open>canvas.height\<close>, and the context calls a successful run makes on it.
\<close>

definition effectiveWidth :: "image \<Rightarrow> dim" where
  "effectiveWidth img = or_else (naturalWidth img) (width img)"

definition effectiveHeight :: "image \<Rightarrow> dim" where
  "effectiveHeight img = or_else (naturalHeight img) (height img)"

definition validDimensions :: "image \<Rightarrow> image \<Rightarrow> bool" where
  "validDimensions prof frm =
     (truthy (effectiveWidth frm) \<and> truthy (effectiveHeight frm)
      \<and> truthy (effectiveWidth prof) \<and> truthy (effectiveHeight prof))"

definition resized :: "surface \<Rightarrow> image \<Rightarrow> surface" where
  "resized cnv frm =
     set_height (num (effectiveHeight frm)) (set_width (num (effectiveWidth frm)) cnv)"

definition renderCalls :: "surface \<Rightarrow> image \<Rightarrow> image \<Rightarrow> CompositeOptions \<Rightarrow> call list" where
  "renderCalls cnv prof frm opts =
     drawCalls (resized cnv frm) prof frm
       (real (num (effectiveWidth frm))) (real (num (effectiveHeight frm)))
       (real (num (effectiveWidth prof))) (real (num (effectiveHeight prof))) opts"

text \<open>The size at which the profile is drawn (\<open>finalProfileWidth\<close>, \<open>finalProfileHeight\<close>).\<close>

definition finalProfileWidth :: "surface \<Rightarrow> image \<Rightarrow> image \<Rightarrow> CompositeOptions \<Rightarrow> real" where
  "finalProfileWidth cnv prof frm opts =
     real (num (effectiveWidth prof))
       * baseProfileScale (resized cnv frm)
           (real (num (effectiveWidth prof))) (real (num (effectiveHeight prof)))
       * dflt 1 (profileScale opts)"

definition finalProfileHeight :: "surface \<Rightarrow> image \<Rightarrow> image \<Rightarrow> CompositeOptions \<Rightarrow> real" where
  "finalProfileHeight cnv prof frm opts =
     real (num (effectiveHeight prof))
       * baseProfileScale (resized cnv frm)
           (real (num (effectiveWidth prof))) (real (num (effectiveHeight prof)))
       * dflt 1 (profileScale opts)"

text \<open>
  The matrix in force when the profile is drawn (after the first four calls) and when
  the frame is drawn (after the first six), and the pixel each of the two \<open>drawImage\<close>
  calls contributes at a canvas pixel.
\<close>

definition profileTransform :: "surface \<Rightarrow> image \<Rightarrow> image \<Rightarrow> CompositeOptions \<Rightarrow> matrix" where
  "profileTransform cnv prof frm opts =
     transform (run (take 4 (renderCalls cnv prof frm opts)) (resized cnv frm))"

definition frameTransform :: "surface \<Rightarrow> image \<Rightarrow> image \<Rightarrow> CompositeOptions \<Rightarrow> matrix" where
  "frameTransform cnv prof frm opts =
     transform (run (take 6 (renderCalls cnv prof frm opts)) (resized cnv frm))"

definition drawnLayer :: "matrix \<Rightarrow> call \<Rightarrow> int \<Rightarrow> int \<Rightarrow> rgba" where
  "drawnLayer m c i j =
     (case c of DrawImage img dx dy dw dh \<Rightarrow> layer m img dx dy dw dh i j | _ \<Rightarrow> transparent)"

definition profileLayer ::
  "surface \<Rightarrow> image \<Rightarrow> image \<Rightarrow> CompositeOptions \<Rightarrow> int \<Rightarrow> int \<Rightarrow> rgba" where
  "profileLayer cnv prof frm opts =
     drawnLayer (profileTransform cnv prof frm opts) (renderCalls cnv prof frm opts ! 4)"

definition frameLayer ::
  "surface \<Rightarrow> image \<Rightarrow> image \<Rightarrow> CompositeOptions \<Rightarrow> int \<Rightarrow> int \<Rightarrow> rgba" where
  "frameLayer cnv prof frm opts =
     drawnLayer (frameTransform cnv prof frm opts) (renderCalls cnv prof frm opts ! 6)"

text \<open>The matrix of a rotation by \<open>r\<close> radians about the point \<open>(cx, cy)\<close>.\<close>

definition rotation :: "real \<Rightarrow> real \<Rightarrow> real \<Rightarrow> matrix" where
  "rotation cx cy r = \<lparr>ma = cos r, mb = sin r, mc = - sin r, md = cos r, me = cx, mf = cy\<rparr>"

text \<open>A promise rejected because a source failed to decode.\<close>

definition decodeError :: "promise \<Rightarrow> bool" where
  "decodeError p =
     (p = Rejected (Error ''Failed to load profile image'')
      \<or> p = Rejected (Error ''Failed to load frame image''))"

definition released :: "merge_state \<Rightarrow> bool" where
  "released s = (settled s = Pending \<or> liveUrls s = {})"

text \<open>
  \<open>stalled\<close>: one of the images has not loaded, so no \<open>toBlob\<close> call is pending and
  the promise is pending or rejected with a decode error. \<open>bothLoaded\<close>: the state in
  which the second \<open>onload\<close> handler calls \<open>tryMerge\<close>.
\<close>

definition stalled :: "merge_state \<Rightarrow> bool" where
  "stalled s =
     ((\<not> profileLoaded s \<or> \<not> frameLoaded s) \<and> pendingBlobs s = 0
      \<and> (settled s = Pending \<or> decodeError (settled s)))"

definition bothLoaded :: "image \<Rightarrow> image \<Rightarrow> merge_state" where
  "bothLoaded p f = started\<lparr>profile := p, frame := f, profileLoaded := True, frameLoaded := True\<rparr>"

subsection \<open>Concrete inputs\<close>

text \<open>
  An 800 x 800 frame, opaque red with a transparent disc in the middle; a 400 x 600
  opaque blue photo; an image that has not been decoded; a surface that an earlier
  drawing left dirty.
\<close>

definition opaque :: "real \<Rightarrow> real \<Rightarrow> real \<Rightarrow> rgba" where
  "opaque r g b = \<lparr>red = r, green = g, blue = b, alpha = 1\<rparr>"

definition ringFrame :: image where
  "ringFrame =
     \<lparr>naturalWidth = Some 800, naturalHeight = Some 800, width = Some 800, height = Some 800,
      content = (\<lambda>u v. if (u - 1 / 2) * (u - 1 / 2) + (v - 1 / 2) * (v - 1 / 2) < 1 / 16
                        then transparent else opaque 1 0 0)\<rparr>"

definition portrait :: image where
  "portrait =
     \<lparr>naturalWidth = Some 400, naturalHeight = Some 600, width = Some 400, height = Some 600,
      content = (\<lambda>u v. opaque 0 0 1)\<rparr>"

definition undecoded :: image where
  "undecoded =
     \<lparr>naturalWidth = Some 0, naturalHeight = Some 600, width = None, height = Some 600,
      content = (\<lambda>u v. transparent)\<rparr>"

definition attributeSized :: image where
  "attributeSized =
     \<lparr>naturalWidth = Some 0, naturalHeight = None, width = Some 400, height = Some 600,
      content = (\<lambda>u v. opaque 0 0 1)\<rparr>"

definition dirtyCanvas :: surface where
  "dirtyCanvas =
     \<lparr>canvasWidth = 20, canvasHeight = 10, pixels = (\<lambda>i j. opaque 1 1 1),
      transform = rotation 3 4 1, saved = [identity]\<rparr>"

definition noOptions :: CompositeOptions where
  "noOptions =
     \<lparr>profileScale = None, frameScale = None, profileRotation = None,
      profileOffsetX = None, profileOffsetY = None\<rparr>"

section \<open>Auxiliary facts\<close>

lemma render_invalid:
  "\<not> validDimensions prof frm \<Longrightarrow>
   renderCompositeToCanvas cnv prof frm opts = (Some (Error ''Invalid image dimensions''), cnv)"
  by (auto simp: renderCompositeToCanvas_def validDimensions_def effectiveWidth_def
      effectiveHeight_def Let_def)

lemma render_valid:
  "validDimensions prof frm \<Longrightarrow>
   renderCompositeToCanvas cnv prof frm opts =
     (None, run (renderCalls cnv prof frm opts) (resized cnv frm))"
  by (simp add: renderCompositeToCanvas_def validDimensions_def effectiveWidth_def
      effectiveHeight_def Let_def renderCalls_def resized_def)

lemma exec_size:
  "canvasWidth (exec c s) = canvasWidth s \<and> canvasHeight (exec c s) = canvasHeight s"
  by (cases c) (simp_all split: list.split)

lemma run_size:
  "canvasWidth (run cs s) = canvasWidth s \<and> canvasHeight (run cs s) = canvasHeight s"
  by (induction cs arbitrary: s) (simp_all add: exec_size)

lemma resized_eq:
  "resized cnv frm =
     \<lparr>canvasWidth = num (effectiveWidth frm), canvasHeight = num (effectiveHeight frm),
      pixels = (\<lambda>i j. transparent), transform = identity, saved = []\<rparr>"
  by (simp add: resized_def set_width_def set_height_def)

lemma resized_fields:
  "canvasWidth (resized cnv frm) = num (effectiveWidth frm)"
  "canvasHeight (resized cnv frm) = num (effectiveHeight frm)"
  "pixels (resized cnv frm) = (\<lambda>i j. transparent)"
  "transform (resized cnv frm) = identity"
  "saved (resized cnv frm) = []"
  by (simp_all add: resized_eq)

lemma renderCalls_eq:
  "renderCalls cnv prof frm opts =
     [ClearRect 0 0 (real (num (effectiveWidth frm))) (real (num (effectiveHeight frm))),
      Save,
      Translate
        ((real (num (effectiveWidth frm)) - finalProfileWidth cnv prof frm opts) / 2
         + finalProfileWidth cnv prof frm opts / 2 + dflt 0 (profileOffsetX opts))
        ((real (num (effectiveHeight frm)) - finalProfileHeight cnv prof frm opts) / 2
         + finalProfileHeight cnv prof frm opts / 2 + dflt 0 (profileOffsetY opts)),
      Rotate (dflt 0 (profileRotation opts) * pi / 180),
      DrawImage prof
        (- finalProfileWidth cnv prof frm opts / 2) (- finalProfileHeight cnv prof frm opts / 2)
        (finalProfileWidth cnv prof frm opts) (finalProfileHeight cnv prof frm opts),
      Restore,
      DrawImage frm
        ((real (num (effectiveWidth frm))
            - real (num (effectiveWidth frm)) * dflt 1 (frameScale opts)) / 2)
        ((real (num (effectiveHeight frm))
            - real (num (effectiveHeight frm)) * dflt 1 (frameScale opts)) / 2)
        (real (num (effectiveWidth frm)) * dflt 1 (frameScale opts))
        (real (num (effectiveHeight frm)) * dflt 1 (frameScale opts))]"
  by (simp add: renderCalls_def drawCalls_def Let_def resized_fields finalProfileWidth_def
      finalProfileHeight_def)

lemma over_transparent_src: "over transparent dst = dst"
  by (simp add: over_def transparent_def)

lemma over_transparent_dst: "over src transparent = src"
  by (simp add: over_def transparent_def)

lemma over_opaque: "alpha src = 1 \<Longrightarrow> over src dst = src"
  by (simp add: over_def)

lemma run_shape:
  assumes "pixels s = (\<lambda>i j. transparent)" "transform s = identity" "saved s = []"
  shows "run [ClearRect x y w h, Save, Translate cx cy, Rotate r,
              DrawImage p px py pw ph, Restore, DrawImage f fx fy fw fh] s =
         s\<lparr>pixels := (\<lambda>i j. if on_canvas s i j
              then over (layer identity f fx fy fw fh i j)
                     (layer (rotation cx cy r) p px py pw ph i j)
              else transparent)\<rparr>"
  apply (rule surface.equality)
  apply (simp_all add: assms on_canvas_def identity_def rotation_def over_transparent_dst
      cong: if_cong)
  done

lemma frameTransform_eq: "frameTransform cnv prof frm opts = identity"
  by (simp add: frameTransform_def renderCalls_eq resized_fields)

lemma profileTransform_eq:
  "profileTransform cnv prof frm opts =
     rotation
       ((real (num (effectiveWidth frm)) - finalProfileWidth cnv prof frm opts) / 2
         + finalProfileWidth cnv prof frm opts / 2 + dflt 0 (profileOffsetX opts))
       ((real (num (effectiveHeight frm)) - finalProfileHeight cnv prof frm opts) / 2
         + finalProfileHeight cnv prof frm opts / 2 + dflt 0 (profileOffsetY opts))
       (dflt 0 (profileRotation opts) * pi / 180)"
  by (simp add: profileTransform_def renderCalls_eq resized_fields identity_def rotation_def)

lemma run_renderCalls:
  "run (renderCalls cnv prof frm opts) (resized cnv frm) =
     (resized cnv frm)\<lparr>pixels := (\<lambda>i j. if on_canvas (resized cnv frm) i j
         then over (frameLayer cnv prof frm opts i j) (profileLayer cnv prof frm opts i j)
         else transparent)\<rparr>"
proof -
  have "run (renderCalls cnv prof frm opts) (resized cnv frm) =
     (resized cnv frm)\<lparr>pixels := (\<lambda>i j. if on_canvas (resized cnv frm) i j
         then over (drawnLayer identity (renderCalls cnv prof frm opts ! 6) i j)
                (drawnLayer (profileTransform cnv prof frm opts)
                   (renderCalls cnv prof frm opts ! 4) i j)
         else transparent)\<rparr>"
    unfolding profileTransform_eq
    unfolding renderCalls_eq
    by (simp only: run_shape [OF resized_fields(3-5)] drawnLayer_def call.case nth_Cons_numeral
        nth_Cons_0 numeral_eq_Suc pred_numeral_simps nth_Cons_Suc BitM.simps)
  then show ?thesis
    unfolding frameLayer_def profileLayer_def frameTransform_eq .
qed

section \<open>The compositor's properties\<close>

lemmas dim_defs = validDimensions_def effectiveWidth_def effectiveHeight_def or_else_def
  truthy_def num_def

lemmas input_defs = portrait_def ringFrame_def undecoded_def attributeSized_def noOptions_def
  dflt_def opaque_def

lemma valid_positive:
  assumes "validDimensions prof frm"
  shows "0 < num (effectiveWidth frm)" "0 < num (effectiveHeight frm)"
        "0 < num (effectiveWidth prof)" "0 < num (effectiveHeight prof)"
  using assms by (auto simp: validDimensions_def truthy_def num_def split: option.splits)

lemma valid_examples:
  "validDimensions portrait ringFrame" "validDimensions attributeSized ringFrame"
  "\<not> validDimensions undecoded ringFrame"
  by (simp_all add: dim_defs input_defs)

lemma unrotated_corner:
  "to_canvas (rotation (x + w / 2 + ox) (y + h / 2 + oy) 0) (- w / 2, - h / 2) = (x + ox, y + oy)"
  by (simp add: to_canvas_def rotation_def)

lemma rotation_center: "to_canvas (rotation cx cy r) (0, 0) = (cx, cy)"
  by (simp add: to_canvas_def rotation_def)

text \<open>
  Claim C1. For images with positive effective dimensions the call succeeds, the base
  cover scale is \<open>max (W / pw) (H / ph)\<close> for canvas size \<open>(W, H)\<close> and profile size
  \<open>(pw, ph)\<close>, the profile is drawn at size \<open>(pw * base * profileScale,
  ph * base * profileScale)\<close>, which keeps its aspect ratio, around the point
  \<open>((W - fw) / 2 + fw / 2 + profileOffsetX, (H - fh) / 2 + fh / 2 + profileOffsetY)\<close>,
  and without rotation its top left corner lies at the centred position
  \<open>((W - fw) / 2, (H - fh) / 2)\<close> plus the offsets as they are. The witness is the
  scenario of the specification: frame 800 x 800, profile 400 x 600, no options.
\<close>

theorem profile_cover_geometry:
  assumes "validDimensions prof frm"
  shows "let W = real (num (effectiveWidth frm)); H = real (num (effectiveHeight frm));
             pw = real (num (effectiveWidth prof)); ph = real (num (effectiveHeight prof));
             base = baseProfileScale (resized cnv frm) pw ph;
             fw = pw * base * dflt 1 (profileScale opts);
             fh = ph * base * dflt 1 (profileScale opts);
             ox = dflt 0 (profileOffsetX opts); oy = dflt 0 (profileOffsetY opts)
         in renderCompositeToCanvas cnv prof frm opts =
              (None, run (renderCalls cnv prof frm opts) (resized cnv frm))
          \<and> 0 < W \<and> 0 < H \<and> 0 < pw \<and> 0 < ph
          \<and> base = max (W / pw) (H / ph)
          \<and> renderCalls cnv prof frm opts ! 2 =
              Translate ((W - fw) / 2 + fw / 2 + ox) ((H - fh) / 2 + fh / 2 + oy)
          \<and> renderCalls cnv prof frm opts ! 4 = DrawImage prof (- fw / 2) (- fh / 2) fw fh
          \<and> fw * ph = fh * pw
          \<and> (dflt 0 (profileRotation opts) = 0 \<longrightarrow>
               to_canvas (profileTransform cnv prof frm opts) (- fw / 2, - fh / 2) =
                 ((W - fw) / 2 + ox, (H - fh) / 2 + oy))"
proof -
  have corner: "dflt 0 (profileRotation opts) = 0 \<Longrightarrow>
      to_canvas (profileTransform cnv prof frm opts)
        (- finalProfileWidth cnv prof frm opts / 2, - finalProfileHeight cnv prof frm opts / 2) =
      ((real (num (effectiveWidth frm)) - finalProfileWidth cnv prof frm opts) / 2
         + dflt 0 (profileOffsetX opts),
       (real (num (effectiveHeight frm)) - finalProfileHeight cnv prof frm opts) / 2
         + dflt 0 (profileOffsetY opts))"
    by (simp only: profileTransform_eq mult_zero_left div_0 unrotated_corner)
  show ?thesis
    using valid_positive [OF assms] corner
    by (simp add: Let_def render_valid [OF assms] renderCalls_eq
        finalProfileWidth_def finalProfileHeight_def baseProfileScale_def resized_fields)
qed

theorem profile_cover_geometry_witness:
  "validDimensions portrait ringFrame
   \<and> baseProfileScale (resized newCanvas ringFrame) 400 600 = 2
   \<and> renderCalls newCanvas portrait ringFrame noOptions ! 4 =
       DrawImage portrait (- 400) (- 600) 800 1200
   \<and> to_canvas (profileTransform newCanvas portrait ringFrame noOptions) (- 400, - 600) =
       (0, - 200)"
  using profile_cover_geometry [OF valid_examples(1), of newCanvas noOptions]
  by (simp add: Let_def dim_defs input_defs baseProfileScale_def resized_fields)

text \<open>
  Claim C2. A successful call leaves the surface with the effective width and height of
  the frame, whatever the profile and the options are.
\<close>

theorem surface_takes_frame_size:
  assumes "fst (renderCompositeToCanvas cnv prof frm opts) = None"
  shows "canvasWidth (snd (renderCompositeToCanvas cnv prof frm opts)) = num (effectiveWidth frm)
       \<and> canvasHeight (snd (renderCompositeToCanvas cnv prof frm opts)) = num (effectiveHeight frm)"
  using assms
  by (cases "validDimensions prof frm")
     (simp_all add: render_valid render_invalid run_size resized_fields)

theorem surface_takes_frame_size_witness:
  "fst (renderCompositeToCanvas dirtyCanvas portrait ringFrame noOptions) = None
   \<and> canvasWidth (snd (renderCompositeToCanvas dirtyCanvas portrait ringFrame noOptions)) = 800
   \<and> canvasHeight (snd (renderCompositeToCanvas dirtyCanvas portrait ringFrame noOptions)) = 800"
proof -
  have ok: "fst (renderCompositeToCanvas dirtyCanvas portrait ringFrame noOptions) = None"
    by (simp add: render_valid [OF valid_examples(1)])
  show ?thesis
    using ok surface_takes_frame_size [OF ok]
    by (simp add: dim_defs input_defs)
qed

text \<open>
  Claim C5. The call fails with the error \<open>Invalid image dimensions\<close> exactly when an
  effective width or height of either image is zero or undefined, it succeeds otherwise,
  and a failing call returns the surface as it received it: size, pixels and context
  state are those of before.
\<close>

theorem invalid_dimensions_leave_surface:
  "(fst (renderCompositeToCanvas cnv prof frm opts) = Some (Error ''Invalid image dimensions''))
     = (\<not> validDimensions prof frm)
   \<and> (fst (renderCompositeToCanvas cnv prof frm opts) = None) = validDimensions prof frm
   \<and> (fst (renderCompositeToCanvas cnv prof frm opts) \<noteq> None \<longrightarrow>
        snd (renderCompositeToCanvas cnv prof frm opts) = cnv)"
  by (cases "validDimensions prof frm") (simp_all add: render_valid render_invalid)

theorem invalid_dimensions_leave_surface_witness:
  "\<not> validDimensions undecoded ringFrame
   \<and> renderCompositeToCanvas dirtyCanvas undecoded ringFrame noOptions =
       (Some (Error ''Invalid image dimensions''), dirtyCanvas)"
  using invalid_dimensions_leave_surface [of dirtyCanvas undecoded ringFrame noOptions]
    valid_examples(3)
  by (simp add: prod_eq_iff)

lemma final_pixel:
  assumes "validDimensions prof frm" "on_canvas (resized cnv frm) i j"
  shows "pixels (snd (renderCompositeToCanvas cnv prof frm opts)) i j =
           over (frameLayer cnv prof frm opts i j) (profileLayer cnv prof frm opts i j)"
  by (simp add: render_valid [OF assms(1)] run_renderCalls assms(2))

lemma cleared_first:
  "pixels (run (take 1 (renderCalls cnv prof frm opts)) (resized cnv frm)) i j = transparent"
  by (simp add: renderCalls_eq resized_fields)

text \<open>
  Claim C3. A successful call makes, on the resized surface, exactly the calls
  \<open>clearRect\<close> of the whole canvas, \<open>save\<close>, \<open>translate\<close>, \<open>rotate\<close>, \<open>drawImage\<close>
  of the profile, \<open>restore\<close>, \<open>drawImage\<close> of the frame, in this order. After the
  first of them every pixel is transparent, and every pixel of the final canvas is the
  frame's pixel composed over the profile's pixel: where the frame contributes a fully
  transparent pixel the result is the profile's pixel there, and where it contributes a
  fully opaque pixel the result is the frame's pixel.
\<close>

theorem clear_profile_frame_order:
  assumes "validDimensions prof frm"
  shows "snd (renderCompositeToCanvas cnv prof frm opts) =
           run (renderCalls cnv prof frm opts) (resized cnv frm)
       \<and> (\<exists>cx cy r px py pw ph fx fy fw fh.
            renderCalls cnv prof frm opts =
              [ClearRect 0 0 (real (canvasWidth (resized cnv frm)))
                 (real (canvasHeight (resized cnv frm))),
               Save, Translate cx cy, Rotate r, DrawImage prof px py pw ph, Restore,
               DrawImage frm fx fy fw fh])
       \<and> (\<forall>i j. pixels (run (take 1 (renderCalls cnv prof frm opts)) (resized cnv frm)) i j
                   = transparent)
       \<and> (\<forall>i j. on_canvas (resized cnv frm) i j \<longrightarrow>
             pixels (snd (renderCompositeToCanvas cnv prof frm opts)) i j =
               over (frameLayer cnv prof frm opts i j) (profileLayer cnv prof frm opts i j)
           \<and> (frameLayer cnv prof frm opts i j = transparent \<longrightarrow>
                pixels (snd (renderCompositeToCanvas cnv prof frm opts)) i j =
                  profileLayer cnv prof frm opts i j)
           \<and> (alpha (frameLayer cnv prof frm opts i j) = 1 \<longrightarrow>
                pixels (snd (renderCompositeToCanvas cnv prof frm opts)) i j =
                  frameLayer cnv prof frm opts i j))"
proof (intro conjI allI impI)
  show "snd (renderCompositeToCanvas cnv prof frm opts) =
          run (renderCalls cnv prof frm opts) (resized cnv frm)"
    by (simp add: render_valid [OF assms])
next
  show "\<exists>cx cy r px py pw ph fx fy fw fh.
          renderCalls cnv prof frm opts =
            [ClearRect 0 0 (real (canvasWidth (resized cnv frm)))
               (real (canvasHeight (resized cnv frm))),
             Save, Translate cx cy, Rotate r, DrawImage prof px py pw ph, Restore,
             DrawImage frm fx fy fw fh]"
    unfolding renderCalls_eq resized_fields by blast
next
  fix i j
  show "pixels (run (take 1 (renderCalls cnv prof frm opts)) (resized cnv frm)) i j = transparent"
    by (rule cleared_first)
next
  fix i j
  assume on: "on_canvas (resized cnv frm) i j"
  show "pixels (snd (renderCompositeToCanvas cnv prof frm opts)) i j =
          over (frameLayer cnv prof frm opts i j) (profileLayer cnv prof frm opts i j)"
    by (rule final_pixel [OF assms on])
next
  fix i j
  assume on: "on_canvas (resized cnv frm) i j"
    and "frameLayer cnv prof frm opts i j = transparent"
  then show "pixels (snd (renderCompositeToCanvas cnv prof frm opts)) i j =
          profileLayer cnv prof frm opts i j"
    by (simp add: final_pixel [OF assms on] over_transparent_src)
next
  fix i j
  assume on: "on_canvas (resized cnv frm) i j"
    and "alpha (frameLayer cnv prof frm opts i j) = 1"
  then show "pixels (snd (renderCompositeToCanvas cnv prof frm opts)) i j =
          frameLayer cnv prof frm opts i j"
    by (simp add: final_pixel [OF assms on] over_opaque)
qed

lemma ring_center:
  "frameLayer newCanvas portrait ringFrame noOptions 400 400 = transparent"
  by (simp add: frameLayer_def frameTransform_eq renderCalls_eq drawnLayer_def layer_def
      rect_coords_def to_local_def identity_def dim_defs input_defs Let_def)

lemma ring_corner:
  "frameLayer newCanvas portrait ringFrame noOptions 10 10 = opaque 1 0 0"
  by (simp add: frameLayer_def frameTransform_eq renderCalls_eq drawnLayer_def layer_def
      rect_coords_def to_local_def identity_def dim_defs input_defs Let_def)

lemma portrait_center:
  "profileLayer newCanvas portrait ringFrame noOptions 400 400 = opaque 0 0 1"
  by (simp add: profileLayer_def profileTransform_eq renderCalls_eq drawnLayer_def layer_def
      rect_coords_def to_local_def rotation_def finalProfileWidth_def finalProfileHeight_def
      baseProfileScale_def resized_fields dim_defs input_defs Let_def)

theorem clear_profile_frame_order_witness:
  "validDimensions portrait ringFrame
   \<and> pixels (snd (renderCompositeToCanvas newCanvas portrait ringFrame noOptions)) 400 400
       = opaque 0 0 1
   \<and> pixels (snd (renderCompositeToCanvas newCanvas portrait ringFrame noOptions)) 10 10
       = opaque 1 0 0"
proof -
  note t = clear_profile_frame_order [OF valid_examples(1), of newCanvas noOptions]
  have on: "on_canvas (resized newCanvas ringFrame) 400 400"
    "on_canvas (resized newCanvas ringFrame) 10 10"
    by (simp_all add: on_canvas_def resized_fields dim_defs input_defs)
  have "pixels (snd (renderCompositeToCanvas newCanvas portrait ringFrame noOptions)) 400 400
          = profileLayer newCanvas portrait ringFrame noOptions 400 400"
    using t on(1) ring_center by blast
  moreover have "alpha (frameLayer newCanvas portrait ringFrame noOptions 10 10) = 1"
    by (simp add: ring_corner opaque_def)
  then have "pixels (snd (renderCompositeToCanvas newCanvas portrait ringFrame noOptions)) 10 10
          = frameLayer newCanvas portrait ringFrame noOptions 10 10"
    using t on(2) by blast
  ultimately show ?thesis
    by (simp add: valid_examples(1) portrait_center ring_corner)
qed

lemma half_turn_coords:
  "rect_coords (rotation (real W / 2) (real H / 2) pi) x y w h i j =
   rect_coords (rotation (real W / 2) (real H / 2) 0) x y w h (int W - 1 - i) (int H - 1 - j)"
  by (simp add: rect_coords_def to_local_def rotation_def Let_def algebra_simps)

lemma centre_simp: "(W - fw) / 2 + fw / 2 + ox = W / 2 + (ox::real)"
  by (simp add: field_simps)

lemma profileLayer_eq:
  "profileLayer cnv prof frm opts i j =
     layer (rotation (real (num (effectiveWidth frm)) / 2 + dflt 0 (profileOffsetX opts))
                     (real (num (effectiveHeight frm)) / 2 + dflt 0 (profileOffsetY opts))
                     (dflt 0 (profileRotation opts) * pi / 180))
       prof (- finalProfileWidth cnv prof frm opts / 2) (- finalProfileHeight cnv prof frm opts / 2)
       (finalProfileWidth cnv prof frm opts) (finalProfileHeight cnv prof frm opts) i j"
  unfolding profileLayer_def profileTransform_eq centre_simp
  by (simp add: renderCalls_eq drawnLayer_def)

lemma finalProfile_rotation [simp]:
  "finalProfileWidth cnv prof frm (opts\<lparr>profileRotation := a\<rparr>) = finalProfileWidth cnv prof frm opts"
  "finalProfileHeight cnv prof frm (opts\<lparr>profileRotation := a\<rparr>) = finalProfileHeight cnv prof frm opts"
  by (simp_all add: finalProfileWidth_def finalProfileHeight_def)

lemma half_turn_layer:
  assumes "dflt 0 (profileOffsetX opts) = 0" "dflt 0 (profileOffsetY opts) = 0"
  shows "profileLayer cnv prof frm (opts\<lparr>profileRotation := Some 180\<rparr>) i j =
         profileLayer cnv prof frm (opts\<lparr>profileRotation := Some 0\<rparr>)
           (int (num (effectiveWidth frm)) - 1 - i) (int (num (effectiveHeight frm)) - 1 - j)"
  using assms
  by (simp add: profileLayer_eq layer_def dflt_def half_turn_coords)

text \<open>
  Claim C4. In a successful call the profile is drawn between \<open>save\<close> and \<open>restore\<close>,
  after a translation to its centre \<open>(W / 2 + profileOffsetX, H / 2 + profileOffsetY)\<close>
  and a rotation by \<open>profileRotation * pi / 180\<close> radians, as the rectangle that
  starts at minus half its final width and height; the matrix in force is the rotation
  about that centre, and the frame is drawn under the identity matrix. The centre of the
  profile does not depend on the rotation, and with zero offsets a rotation by 180
  degrees draws at each pixel what a rotation by 0 degrees draws at the pixel opposite
  to it through the centre of the canvas.
\<close>

theorem rotation_about_profile_center:
  assumes "validDimensions prof frm"
  shows "let cx = real (num (effectiveWidth frm)) / 2 + dflt 0 (profileOffsetX opts);
             cy = real (num (effectiveHeight frm)) / 2 + dflt 0 (profileOffsetY opts);
             fw = finalProfileWidth cnv prof frm opts;
             fh = finalProfileHeight cnv prof frm opts;
             r = dflt 0 (profileRotation opts) * pi / 180
         in renderCompositeToCanvas cnv prof frm opts =
              (None, run (renderCalls cnv prof frm opts) (resized cnv frm))
          \<and> take 5 (drop 1 (renderCalls cnv prof frm opts)) =
              [Save, Translate cx cy, Rotate r, DrawImage prof (- fw / 2) (- fh / 2) fw fh,
               Restore]
          \<and> profileTransform cnv prof frm opts = rotation cx cy r
          \<and> to_canvas (profileTransform cnv prof frm opts) (0, 0) = (cx, cy)
          \<and> frameTransform cnv prof frm opts = identity
          \<and> (\<forall>a b. to_canvas (profileTransform cnv prof frm (opts\<lparr>profileRotation := a\<rparr>)) (0, 0)
                   = to_canvas (profileTransform cnv prof frm (opts\<lparr>profileRotation := b\<rparr>)) (0, 0))
          \<and> (dflt 0 (profileOffsetX opts) = 0 \<and> dflt 0 (profileOffsetY opts) = 0 \<longrightarrow>
               (\<forall>i j. profileLayer cnv prof frm (opts\<lparr>profileRotation := Some 180\<rparr>) i j =
                      profileLayer cnv prof frm (opts\<lparr>profileRotation := Some 0\<rparr>)
                        (int (num (effectiveWidth frm)) - 1 - i)
                        (int (num (effectiveHeight frm)) - 1 - j)))"
proof -
  have calls: "take 5 (drop 1 (renderCalls cnv prof frm opts)) =
      [Save,
       Translate (real (num (effectiveWidth frm)) / 2 + dflt 0 (profileOffsetX opts))
         (real (num (effectiveHeight frm)) / 2 + dflt 0 (profileOffsetY opts)),
       Rotate (dflt 0 (profileRotation opts) * pi / 180),
       DrawImage prof (- finalProfileWidth cnv prof frm opts / 2)
         (- finalProfileHeight cnv prof frm opts / 2)
         (finalProfileWidth cnv prof frm opts) (finalProfileHeight cnv prof frm opts),
       Restore]"
    unfolding renderCalls_eq centre_simp by simp
  have matrix: "profileTransform cnv prof frm opts' =
      rotation (real (num (effectiveWidth frm)) / 2 + dflt 0 (profileOffsetX opts'))
        (real (num (effectiveHeight frm)) / 2 + dflt 0 (profileOffsetY opts'))
        (dflt 0 (profileRotation opts') * pi / 180)" for opts'
    unfolding profileTransform_eq centre_simp ..
  show ?thesis
    unfolding Let_def
  proof (intro conjI allI impI)
    show "take 5 (drop 1 (renderCalls cnv prof frm opts)) =
      [Save,
       Translate (real (num (effectiveWidth frm)) / 2 + dflt 0 (profileOffsetX opts))
         (real (num (effectiveHeight frm)) / 2 + dflt 0 (profileOffsetY opts)),
       Rotate (dflt 0 (profileRotation opts) * pi / 180),
       DrawImage prof (- finalProfileWidth cnv prof frm opts / 2)
         (- finalProfileHeight cnv prof frm opts / 2)
         (finalProfileWidth cnv prof frm opts) (finalProfileHeight cnv prof frm opts),
       Restore]"
      by (rule calls)
  qed (simp_all add: render_valid [OF assms] matrix rotation_center frameTransform_eq
        half_turn_layer)
qed

theorem rotation_about_profile_center_witness:
  "validDimensions portrait ringFrame
   \<and> to_canvas (profileTransform newCanvas portrait ringFrame
        (noOptions\<lparr>profileRotation := Some 180\<rparr>)) (0, 0) = (400, 400)
   \<and> to_canvas (profileTransform newCanvas portrait ringFrame
        (noOptions\<lparr>profileRotation := Some 0\<rparr>)) (0, 0) = (400, 400)
   \<and> profileTransform newCanvas portrait ringFrame (noOptions\<lparr>profileRotation := Some 180\<rparr>)
       = rotation 400 400 pi
   \<and> frameTransform newCanvas portrait ringFrame (noOptions\<lparr>profileRotation := Some 180\<rparr>)
       = identity"
proof -
  let ?half = "noOptions\<lparr>profileRotation := Some 180\<rparr>"
  let ?none = "noOptions\<lparr>profileRotation := Some 0\<rparr>"
  note half = rotation_about_profile_center [OF valid_examples(1), where cnv = newCanvas
      and opts = ?half, unfolded Let_def]
  note none = rotation_about_profile_center [OF valid_examples(1), where cnv = newCanvas
      and opts = ?none, unfolded Let_def]
  have "to_canvas (profileTransform newCanvas portrait ringFrame ?half) (0, 0) =
      (real (num (effectiveWidth ringFrame)) / 2 + dflt 0 (profileOffsetX ?half),
       real (num (effectiveHeight ringFrame)) / 2 + dflt 0 (profileOffsetY ?half))"
    using half by blast
  moreover have "to_canvas (profileTransform newCanvas portrait ringFrame ?none) (0, 0) =
      (real (num (effectiveWidth ringFrame)) / 2 + dflt 0 (profileOffsetX ?none),
       real (num (effectiveHeight ringFrame)) / 2 + dflt 0 (profileOffsetY ?none))"
    using none by blast
  moreover have "profileTransform newCanvas portrait ringFrame ?half =
      rotation (real (num (effectiveWidth ringFrame)) / 2 + dflt 0 (profileOffsetX ?half))
        (real (num (effectiveHeight ringFrame)) / 2 + dflt 0 (profileOffsetY ?half))
        (dflt 0 (profileRotation ?half) * pi / 180)"
    using half by blast
  moreover have "frameTransform newCanvas portrait ringFrame ?half = identity"
    using half by blast
  ultimately show ?thesis
    by (simp add: valid_examples(1) dim_defs input_defs)
qed

lemma frameLayer_eq:
  "frameLayer cnv prof frm opts i j =
     layer identity frm
       ((real (num (effectiveWidth frm))
           - real (num (effectiveWidth frm)) * dflt 1 (frameScale opts)) / 2)
       ((real (num (effectiveHeight frm))
           - real (num (effectiveHeight frm)) * dflt 1 (frameScale opts)) / 2)
       (real (num (effectiveWidth frm)) * dflt 1 (frameScale opts))
       (real (num (effectiveHeight frm)) * dflt 1 (frameScale opts)) i j"
  by (simp add: frameLayer_def frameTransform_eq renderCalls_eq drawnLayer_def)

lemma full_rect_coords:
  assumes "0 \<le> i" "i < int W" "0 \<le> j" "j < int H"
  shows "rect_coords identity 0 0 (real W) (real H) i j =
           Some ((real_of_int i + 1 / 2) / real W, (real_of_int j + 1 / 2) / real H)"
proof -
  have W: "0 < real W" and H: "0 < real H" using assms by auto
  have "real_of_int (i + 1) \<le> real_of_int (int W)" "real_of_int (j + 1) \<le> real_of_int (int H)"
    using assms(2,4) by (simp_all only: of_int_le_iff)
  then have up: "real_of_int i + 1 \<le> real W" "real_of_int j + 1 \<le> real H"
    by simp_all
  have low: "0 \<le> real_of_int i" "0 \<le> real_of_int j"
    using assms(1,3) by simp_all
  have i: "0 \<le> real_of_int i + 1 / 2" "real_of_int i + 1 / 2 < real W"
    using up(1) low(1) by simp_all
  have j: "0 \<le> real_of_int j + 1 / 2" "real_of_int j + 1 / 2 < real H"
    using up(2) low(2) by simp_all
  show ?thesis
    using W H i j by (simp add: rect_coords_def to_local_def identity_def Let_def)
qed

lemma frame_fills:
  assumes "dflt 1 (frameScale opts) = 1" "on_canvas (resized cnv frm) i j"
  shows "frameLayer cnv prof frm opts i j =
           content frm ((real_of_int i + 1 / 2) / real (num (effectiveWidth frm)))
             ((real_of_int j + 1 / 2) / real (num (effectiveHeight frm)))"
  using assms(2)
  by (simp add: frameLayer_eq assms(1) layer_def on_canvas_def resized_fields full_rect_coords)

text \<open>
  Claim C7. In a successful call the canvas has the size \<open>(W, H)\<close> of the frame, and the
  frame is drawn last, under the identity matrix, as the rectangle of size
  \<open>(W * frameScale, H * frameScale)\<close> at \<open>((W - W * frameScale) / 2,
  (H - H * frameScale) / 2)\<close>, whose centre is the centre of the canvas. With
  \<open>frameScale = 1\<close> the rectangle is \<open>(0, 0, W, H)\<close> and every pixel of the canvas
  receives the frame's bitmap at its own relative position.
\<close>

theorem frame_scaled_about_center:
  assumes "validDimensions prof frm"
  shows "let W = real (num (effectiveWidth frm)); H = real (num (effectiveHeight frm));
             s = dflt 1 (frameScale opts)
         in renderCompositeToCanvas cnv prof frm opts =
              (None, run (renderCalls cnv prof frm opts) (resized cnv frm))
          \<and> real (canvasWidth (resized cnv frm)) = W \<and> real (canvasHeight (resized cnv frm)) = H
          \<and> length (renderCalls cnv prof frm opts) = 7
          \<and> renderCalls cnv prof frm opts ! 6 =
              DrawImage frm ((W - W * s) / 2) ((H - H * s) / 2) (W * s) (H * s)
          \<and> frameTransform cnv prof frm opts = identity
          \<and> to_canvas (frameTransform cnv prof frm opts)
               ((W - W * s) / 2 + W * s / 2, (H - H * s) / 2 + H * s / 2) = (W / 2, H / 2)
          \<and> (s = 1 \<longrightarrow>
               renderCalls cnv prof frm opts ! 6 = DrawImage frm 0 0 W H
             \<and> (\<forall>i j. on_canvas (resized cnv frm) i j \<longrightarrow>
                   frameLayer cnv prof frm opts i j =
                     content frm ((real_of_int i + 1 / 2) / W) ((real_of_int j + 1 / 2) / H)))"
  unfolding Let_def
proof (intro conjI allI impI)
  show "to_canvas (frameTransform cnv prof frm opts)
     ((real (num (effectiveWidth frm))
         - real (num (effectiveWidth frm)) * dflt 1 (frameScale opts)) / 2
        + real (num (effectiveWidth frm)) * dflt 1 (frameScale opts) / 2,
      (real (num (effectiveHeight frm))
         - real (num (effectiveHeight frm)) * dflt 1 (frameScale opts)) / 2
        + real (num (effectiveHeight frm)) * dflt 1 (frameScale opts) / 2) =
     (real (num (effectiveWidth frm)) / 2, real (num (effectiveHeight frm)) / 2)"
    by (simp add: frameTransform_eq to_canvas_def identity_def field_simps)
next
  fix i j
  assume "dflt 1 (frameScale opts) = 1" "on_canvas (resized cnv frm) i j"
  then show "frameLayer cnv prof frm opts i j =
      content frm ((real_of_int i + 1 / 2) / real (num (effectiveWidth frm)))
        ((real_of_int j + 1 / 2) / real (num (effectiveHeight frm)))"
    by (rule frame_fills)
qed (simp_all add: render_valid [OF assms] renderCalls_eq frameTransform_eq resized_fields)

theorem frame_scaled_about_center_witness:
  "validDimensions portrait ringFrame
   \<and> renderCalls dirtyCanvas portrait ringFrame noOptions ! 6 = DrawImage ringFrame 0 0 800 800
   \<and> renderCalls dirtyCanvas portrait ringFrame (noOptions\<lparr>frameScale := Some (1 / 2)\<rparr>) ! 6
       = DrawImage ringFrame 200 200 400 400"
proof -
  let ?small = "noOptions\<lparr>frameScale := Some (1 / 2)\<rparr>"
  note full = frame_scaled_about_center [OF valid_examples(1), where cnv = dirtyCanvas
      and opts = noOptions, unfolded Let_def]
  note small = frame_scaled_about_center [OF valid_examples(1), where cnv = dirtyCanvas
      and opts = ?small, unfolded Let_def]
  have one: "dflt 1 (frameScale noOptions) = 1"
    by (simp add: input_defs)
  have "renderCalls dirtyCanvas portrait ringFrame noOptions ! 6 =
      DrawImage ringFrame 0 0 (real (num (effectiveWidth ringFrame)))
        (real (num (effectiveHeight ringFrame)))"
    using full one by blast
  moreover have "renderCalls dirtyCanvas portrait ringFrame ?small ! 6 =
      DrawImage ringFrame
        ((real (num (effectiveWidth ringFrame))
            - real (num (effectiveWidth ringFrame)) * dflt 1 (frameScale ?small)) / 2)
        ((real (num (effectiveHeight ringFrame))
            - real (num (effectiveHeight ringFrame)) * dflt 1 (frameScale ?small)) / 2)
        (real (num (effectiveWidth ringFrame)) * dflt 1 (frameScale ?small))
        (real (num (effectiveHeight ringFrame)) * dflt 1 (frameScale ?small))"
    using small by blast
  ultimately show ?thesis
    by (simp add: valid_examples(1) dim_defs input_defs)
qed

lemma renderCalls_surface: "renderCalls cnv prof frm opts = renderCalls other prof frm opts"
  by (simp add: renderCalls_eq finalProfileWidth_def finalProfileHeight_def
      baseProfileScale_def resized_fields)

lemma resized_surface: "resized cnv frm = resized other frm"
  by (simp add: resized_eq)

lemma render_surface:
  "validDimensions prof frm \<Longrightarrow>
   renderCompositeToCanvas other prof frm opts = renderCompositeToCanvas cnv prof frm opts"
  using renderCalls_surface [of other prof frm opts cnv] resized_surface [of other frm cnv]
  by (simp add: render_valid)

text \<open>
  Claim C8. Rendering a second time with the same images and options, on the surface
  the first call left, gives the same result as the first call. A successful call does
  not depend on the surface it is given at all: from any two surfaces it returns the
  same surface, pixels, size and context state.
\<close>

theorem render_twice_same_surface:
  "renderCompositeToCanvas (snd (renderCompositeToCanvas cnv prof frm opts)) prof frm opts =
     renderCompositeToCanvas cnv prof frm opts
   \<and> (validDimensions prof frm \<longrightarrow>
        renderCompositeToCanvas other prof frm opts = renderCompositeToCanvas cnv prof frm opts)"
proof (cases "validDimensions prof frm")
  case True
  then show ?thesis
    using render_surface [OF True] by simp
next
  case False
  then show ?thesis
    by (simp add: render_invalid)
qed

theorem render_twice_same_surface_witness:
  "validDimensions portrait ringFrame
   \<and> renderCompositeToCanvas dirtyCanvas portrait ringFrame noOptions =
       renderCompositeToCanvas newCanvas portrait ringFrame noOptions
   \<and> renderCompositeToCanvas
        (snd (renderCompositeToCanvas dirtyCanvas portrait ringFrame noOptions))
        portrait ringFrame noOptions =
       renderCompositeToCanvas dirtyCanvas portrait ringFrame noOptions"
  using render_twice_same_surface [of dirtyCanvas portrait ringFrame noOptions newCanvas]
    render_twice_same_surface [of newCanvas portrait ringFrame noOptions dirtyCanvas]
    valid_examples(1)
  by simp

text \<open>
  Claim C9. Each effective dimension is the natural dimension, or the element's
  \<open>width\<close> or \<open>height\<close> property when the natural dimension is zero or undefined: the
  call checks these four values, sizes the canvas from the frame's and computes its
  geometry from them. So a profile whose \<open>naturalWidth\<close> is zero or undefined and whose
  \<open>width\<close> is positive raises no error (the other three dimensions being positive), and
  it is drawn at the size computed from \<open>width\<close>.
\<close>

theorem natural_dimension_fallback:
  "renderCompositeToCanvas cnv prof frm opts =
     (let fw = (if truthy (naturalWidth frm) then naturalWidth frm else width frm);
          fh = (if truthy (naturalHeight frm) then naturalHeight frm else height frm);
          pw = (if truthy (naturalWidth prof) then naturalWidth prof else width prof);
          ph = (if truthy (naturalHeight prof) then naturalHeight prof else height prof);
          sized = set_height (num fh) (set_width (num fw) cnv)
      in if truthy fw \<and> truthy fh \<and> truthy pw \<and> truthy ph
         then (None,
               run (drawCalls sized prof frm (real (num fw)) (real (num fh))
                      (real (num pw)) (real (num ph)) opts) sized)
         else (Some (Error ''Invalid image dimensions''), cnv))
   \<and> (\<not> truthy (naturalWidth prof) \<and> truthy (width prof) \<and> truthy (effectiveHeight prof)
        \<and> truthy (effectiveWidth frm) \<and> truthy (effectiveHeight frm) \<longrightarrow>
        fst (renderCompositeToCanvas cnv prof frm opts) = None
      \<and> effectiveWidth prof = width prof
      \<and> finalProfileWidth cnv prof frm opts =
          real (num (width prof))
            * max (real (num (effectiveWidth frm)) / real (num (width prof)))
                  (real (num (effectiveHeight frm)) / real (num (effectiveHeight prof)))
            * dflt 1 (profileScale opts)
      \<and> (\<exists>x y h. renderCalls cnv prof frm opts ! 4 =
            DrawImage prof x y (finalProfileWidth cnv prof frm opts) h))"
proof (intro conjI impI)
  show "renderCompositeToCanvas cnv prof frm opts =
     (let fw = (if truthy (naturalWidth frm) then naturalWidth frm else width frm);
          fh = (if truthy (naturalHeight frm) then naturalHeight frm else height frm);
          pw = (if truthy (naturalWidth prof) then naturalWidth prof else width prof);
          ph = (if truthy (naturalHeight prof) then naturalHeight prof else height prof);
          sized = set_height (num fh) (set_width (num fw) cnv)
      in if truthy fw \<and> truthy fh \<and> truthy pw \<and> truthy ph
         then (None,
               run (drawCalls sized prof frm (real (num fw)) (real (num fh))
                      (real (num pw)) (real (num ph)) opts) sized)
         else (Some (Error ''Invalid image dimensions''), cnv))"
    unfolding renderCompositeToCanvas_def or_else_def Let_def by auto
next
  assume a: "\<not> truthy (naturalWidth prof) \<and> truthy (width prof) \<and> truthy (effectiveHeight prof)
        \<and> truthy (effectiveWidth frm) \<and> truthy (effectiveHeight frm)"
  then have w: "effectiveWidth prof = width prof"
    by (simp add: effectiveWidth_def or_else_def)
  with a have v: "validDimensions prof frm"
    by (simp add: validDimensions_def)
  show "fst (renderCompositeToCanvas cnv prof frm opts) = None"
    by (simp add: render_valid [OF v])
  show "effectiveWidth prof = width prof" by (rule w)
  show "finalProfileWidth cnv prof frm opts =
          real (num (width prof))
            * max (real (num (effectiveWidth frm)) / real (num (width prof)))
                  (real (num (effectiveHeight frm)) / real (num (effectiveHeight prof)))
            * dflt 1 (profileScale opts)"
    by (simp add: finalProfileWidth_def baseProfileScale_def resized_fields w)
  show "\<exists>x y h. renderCalls cnv prof frm opts ! 4 =
            DrawImage prof x y (finalProfileWidth cnv prof frm opts) h"
    by (simp add: renderCalls_eq)
qed

theorem natural_dimension_fallback_witness:
  "\<not> truthy (naturalWidth attributeSized) \<and> truthy (width attributeSized)
   \<and> fst (renderCompositeToCanvas newCanvas attributeSized ringFrame noOptions) = None
   \<and> finalProfileWidth newCanvas attributeSized ringFrame noOptions = 800"
proof -
  have a: "\<not> truthy (naturalWidth attributeSized) \<and> truthy (width attributeSized)
      \<and> truthy (effectiveHeight attributeSized)
      \<and> truthy (effectiveWidth ringFrame) \<and> truthy (effectiveHeight ringFrame)"
    by (simp add: dim_defs input_defs)
  note t = natural_dimension_fallback [of newCanvas attributeSized ringFrame noOptions]
  have "fst (renderCompositeToCanvas newCanvas attributeSized ringFrame noOptions) = None"
    using t a by blast
  moreover have "finalProfileWidth newCanvas attributeSized ringFrame noOptions =
      real (num (width attributeSized))
        * max (real (num (effectiveWidth ringFrame)) / real (num (width attributeSized)))
              (real (num (effectiveHeight ringFrame)) / real (num (effectiveHeight attributeSized)))
        * dflt 1 (profileScale noOptions)"
    using t a by blast
  ultimately show ?thesis
    using a by (simp add: dim_defs input_defs)
qed

lemma finalProfile_frameScale [simp]:
  "finalProfileWidth cnv prof frm (opts\<lparr>frameScale := a\<rparr>) = finalProfileWidth cnv prof frm opts"
  "finalProfileHeight cnv prof frm (opts\<lparr>frameScale := a\<rparr>) = finalProfileHeight cnv prof frm opts"
  by (simp_all add: finalProfileWidth_def finalProfileHeight_def)

lemma take6_frameScale:
  "take 6 (renderCalls cnv prof frm (opts\<lparr>frameScale := a\<rparr>)) =
   take 6 (renderCalls cnv prof frm opts)"
  by (simp add: renderCalls_eq)

text \<open>
  Claim C10. Changing only \<open>frameScale\<close> leaves the first six context calls of a run
  as they are, with their arguments: the clearing of the canvas, the translation to the
  profile's centre, the rotation, the rectangle of the profile and the restore. The
  base cover scale, the final size of the profile, the matrix under which it is drawn and
  the pixels it contributes are the same in both runs; the runs differ in the rectangle
  of the frame alone.
\<close>

theorem frame_scale_leaves_profile:
  "take 6 (renderCalls cnv prof frm (opts\<lparr>frameScale := a\<rparr>)) =
     take 6 (renderCalls cnv prof frm (opts\<lparr>frameScale := b\<rparr>))
   \<and> baseProfileScale (resized cnv frm) (real (num (effectiveWidth prof)))
        (real (num (effectiveHeight prof))) =
       max (real (num (effectiveWidth frm)) / real (num (effectiveWidth prof)))
           (real (num (effectiveHeight frm)) / real (num (effectiveHeight prof)))
   \<and> finalProfileWidth cnv prof frm (opts\<lparr>frameScale := a\<rparr>) =
       finalProfileWidth cnv prof frm (opts\<lparr>frameScale := b\<rparr>)
   \<and> finalProfileHeight cnv prof frm (opts\<lparr>frameScale := a\<rparr>) =
       finalProfileHeight cnv prof frm (opts\<lparr>frameScale := b\<rparr>)
   \<and> profileTransform cnv prof frm (opts\<lparr>frameScale := a\<rparr>) =
       profileTransform cnv prof frm (opts\<lparr>frameScale := b\<rparr>)
   \<and> profileLayer cnv prof frm (opts\<lparr>frameScale := a\<rparr>) =
       profileLayer cnv prof frm (opts\<lparr>frameScale := b\<rparr>)
   \<and> (\<forall>k < 6. renderCalls cnv prof frm (opts\<lparr>frameScale := a\<rparr>) ! k =
                renderCalls cnv prof frm (opts\<lparr>frameScale := b\<rparr>) ! k)
   \<and> (validDimensions prof frm \<longrightarrow>
        renderCompositeToCanvas cnv prof frm (opts\<lparr>frameScale := a\<rparr>) =
          (None, run (renderCalls cnv prof frm (opts\<lparr>frameScale := a\<rparr>)) (resized cnv frm)))"
proof -
  have six: "take 6 (renderCalls cnv prof frm (opts\<lparr>frameScale := a\<rparr>)) =
      take 6 (renderCalls cnv prof frm (opts\<lparr>frameScale := b\<rparr>))"
    by (simp only: take6_frameScale)
  have nth: "renderCalls cnv prof frm (opts\<lparr>frameScale := a\<rparr>) ! k =
      renderCalls cnv prof frm (opts\<lparr>frameScale := b\<rparr>) ! k" if "k < 6" for k
  proof -
    have "take 6 (renderCalls cnv prof frm (opts\<lparr>frameScale := a\<rparr>)) ! k =
        take 6 (renderCalls cnv prof frm (opts\<lparr>frameScale := b\<rparr>)) ! k"
      by (simp only: six)
    then show ?thesis using that by (simp only: nth_take)
  qed
  have matrix: "profileTransform cnv prof frm (opts\<lparr>frameScale := a\<rparr>) =
      profileTransform cnv prof frm (opts\<lparr>frameScale := b\<rparr>)"
    by (simp add: profileTransform_eq)
  have "profileLayer cnv prof frm (opts\<lparr>frameScale := a\<rparr>) i j =
      profileLayer cnv prof frm (opts\<lparr>frameScale := b\<rparr>) i j" for i j
    by (simp add: profileLayer_eq)
  then have lay: "profileLayer cnv prof frm (opts\<lparr>frameScale := a\<rparr>) =
      profileLayer cnv prof frm (opts\<lparr>frameScale := b\<rparr>)"
    by (simp add: fun_eq_iff)
  show ?thesis
    using six nth matrix lay
    by (simp add: baseProfileScale_def resized_fields render_valid)
qed

theorem frame_scale_leaves_profile_witness:
  "take 6 (renderCalls newCanvas portrait ringFrame (noOptions\<lparr>frameScale := Some 1\<rparr>)) =
     take 6 (renderCalls newCanvas portrait ringFrame (noOptions\<lparr>frameScale := Some 2\<rparr>))
   \<and> renderCalls newCanvas portrait ringFrame (noOptions\<lparr>frameScale := Some 1\<rparr>) ! 6 \<noteq>
       renderCalls newCanvas portrait ringFrame (noOptions\<lparr>frameScale := Some 2\<rparr>) ! 6"
proof -
  have "renderCalls newCanvas portrait ringFrame (noOptions\<lparr>frameScale := Some 1\<rparr>) ! 6 \<noteq>
       renderCalls newCanvas portrait ringFrame (noOptions\<lparr>frameScale := Some 2\<rparr>) ! 6"
    by (simp add: renderCalls_eq dim_defs input_defs)
  then show ?thesis
    using frame_scale_leaves_profile [where cnv = newCanvas and prof = portrait
        and frm = ringFrame and opts = noOptions and a = "Some 1" and b = "Some 2"]
    by blast
qed

section \<open>The export wrapper's properties\<close>

lemma url_cases: "u = ProfileUrl \<or> u = FrameUrl"
  by (cases u) simp_all

lemma revoke_both: "liveUrls (revokeObjectURL FrameUrl (revokeObjectURL ProfileUrl s)) = {}"
  using url_cases by (auto simp: revokeObjectURL_def)

lemma reject_fields:
  "liveUrls (reject e s) = liveUrls s" "pendingBlobs (reject e s) = pendingBlobs s"
  "profileLoaded (reject e s) = profileLoaded s" "frameLoaded (reject e s) = frameLoaded s"
  by (simp_all add: reject_def)

lemma resolve_fields:
  "liveUrls (resolve b s) = liveUrls s" "pendingBlobs (resolve b s) = pendingBlobs s"
  "profileLoaded (resolve b s) = profileLoaded s" "frameLoaded (resolve b s) = frameLoaded s"
  by (simp_all add: resolve_def)

lemma revoke_fields:
  "settled (revokeObjectURL u s) = settled s"
  "pendingBlobs (revokeObjectURL u s) = pendingBlobs s"
  "profileLoaded (revokeObjectURL u s) = profileLoaded s"
  "frameLoaded (revokeObjectURL u s) = frameLoaded s"
  by (simp_all add: revokeObjectURL_def)

lemmas settle_fields = reject_fields resolve_fields revoke_fields

lemma released_settle:
  "released (reject e (revokeObjectURL FrameUrl (revokeObjectURL ProfileUrl s)))"
  "released (resolve b (revokeObjectURL FrameUrl (revokeObjectURL ProfileUrl s)))"
  by (simp_all add: released_def revoke_both settle_fields)

lemma released_tryMerge:
  assumes "released s"
  shows "released (tryMerge options s)"
proof (cases "\<not> profileLoaded s \<or> \<not> frameLoaded s")
  case True
  then show ?thesis using assms by (simp add: tryMerge_def)
next
  case False
  obtain r c where rc:
    "renderCompositeToCanvas (canvas s) (profile s) (frame s) (withDefaults options) = (r, c)"
    by (cases "renderCompositeToCanvas (canvas s) (profile s) (frame s) (withDefaults options)")
  show ?thesis
  proof (cases r)
    case None
    then show ?thesis
      using assms False rc by (simp add: tryMerge_def released_def)
  next
    case (Some err)
    then show ?thesis
      using False rc by (simp add: tryMerge_def released_settle)
  qed
qed

lemma released_handle:
  assumes "released s"
  shows "released (handle options s e)"
proof (cases e)
  case (ProfileOnload img)
  have "released (s\<lparr>profile := img, profileLoaded := True\<rparr>)"
    using assms by (simp add: released_def)
  then show ?thesis using ProfileOnload by (simp add: released_tryMerge)
next
  case (FrameOnload img)
  have "released (s\<lparr>frame := img, frameLoaded := True\<rparr>)"
    using assms by (simp add: released_def)
  then show ?thesis using FrameOnload by (simp add: released_tryMerge)
next
  case (BlobCallback b)
  then show ?thesis using assms by (simp add: released_settle split: option.split)
qed (simp_all add: released_settle)

lemma released_foldl: "released s \<Longrightarrow> released (foldl (handle options) s es)"
  by (induction es arbitrary: s) (simp_all add: released_handle)

lemma released_mergeImages: "released (mergeImages ctx options events)"
proof (cases ctx)
  case True
  have "released started" by (simp add: released_def started_def)
  then show ?thesis using True by (simp add: mergeImages_def released_foldl)
next
  case False
  then show ?thesis by (simp add: mergeImages_def released_def reject_def)
qed

lemma tryMerge_not_loaded:
  "\<not> profileLoaded s \<or> \<not> frameLoaded s \<Longrightarrow> tryMerge options s = s"
  by (simp add: tryMerge_def)

lemma decodeError_reject:
  assumes "settled s = Pending \<or> decodeError (settled s)"
  shows "decodeError (settled (reject (Error ''Failed to load profile image'')
            (revokeObjectURL FrameUrl (revokeObjectURL ProfileUrl s))))"
        "decodeError (settled (reject (Error ''Failed to load frame image'')
            (revokeObjectURL FrameUrl (revokeObjectURL ProfileUrl s))))"
  using assms by (auto simp: reject_def decodeError_def revokeObjectURL_def)

lemma stalled_handle:
  assumes "stalled s"
    and "(\<not> profileLoaded s \<and> (\<forall>img. e \<noteq> ProfileOnload img))
         \<or> (\<not> frameLoaded s \<and> (\<forall>img. e \<noteq> FrameOnload img))"
  shows "stalled (handle options s e)
       \<and> profileLoaded (handle options s e) = (profileLoaded s \<or> (\<exists>img. e = ProfileOnload img))
       \<and> frameLoaded (handle options s e) = (frameLoaded s \<or> (\<exists>img. e = FrameOnload img))
       \<and> (decodeError (settled s) \<or> e = ProfileOnerror \<or> e = FrameOnerror \<longrightarrow>
            decodeError (settled (handle options s e)))"
proof (cases e)
  case (ProfileOnload img)
  then have "\<not> frameLoaded s" using assms(2) by auto
  then show ?thesis
    using assms(1) ProfileOnload by (simp add: tryMerge_not_loaded stalled_def)
next
  case (FrameOnload img)
  then have "\<not> profileLoaded s" using assms(2) by auto
  then show ?thesis
    using assms(1) FrameOnload by (simp add: tryMerge_not_loaded stalled_def)
next
  case ProfileOnerror
  then show ?thesis
    using assms(1) decodeError_reject(1) [of s]
    by (simp add: stalled_def settle_fields)
next
  case FrameOnerror
  then show ?thesis
    using assms(1) decodeError_reject(2) [of s]
    by (simp add: stalled_def settle_fields)
next
  case (BlobCallback b)
  then show ?thesis
    using assms(1) by (simp add: stalled_def)
qed

lemma profile_never_loads:
  assumes "stalled s" "\<not> profileLoaded s" "\<forall>img. ProfileOnload img \<notin> set es"
    and "decodeError (settled s) \<or> ProfileOnerror \<in> set es \<or> FrameOnerror \<in> set es"
  shows "decodeError (settled (foldl (handle options) s es))"
  using assms
proof (induction es arbitrary: s)
  case Nil
  then show ?case by simp
next
  case (Cons e es)
  have e: "\<forall>img. e \<noteq> ProfileOnload img" using Cons.prems(3) by auto
  note step = stalled_handle [of s e options, OF Cons.prems(1)]
  have "stalled (handle options s e)" "\<not> profileLoaded (handle options s e)"
    using step e Cons.prems(2) by auto
  moreover have "\<forall>img. ProfileOnload img \<notin> set es" using Cons.prems(3) by auto
  moreover have "decodeError (settled (handle options s e))
      \<or> ProfileOnerror \<in> set es \<or> FrameOnerror \<in> set es"
    using step e Cons.prems(2,4) by auto
  ultimately show ?case
    using Cons.IH [of "handle options s e"] by simp
qed

lemma frame_never_loads:
  assumes "stalled s" "\<not> frameLoaded s" "\<forall>img. FrameOnload img \<notin> set es"
    and "decodeError (settled s) \<or> ProfileOnerror \<in> set es \<or> FrameOnerror \<in> set es"
  shows "decodeError (settled (foldl (handle options) s es))"
  using assms
proof (induction es arbitrary: s)
  case Nil
  then show ?case by simp
next
  case (Cons e es)
  have e: "\<forall>img. e \<noteq> FrameOnload img" using Cons.prems(3) by auto
  note step = stalled_handle [of s e options, OF Cons.prems(1)]
  have "stalled (handle options s e)" "\<not> frameLoaded (handle options s e)"
    using step e Cons.prems(2) by auto
  moreover have "\<forall>img. FrameOnload img \<notin> set es" using Cons.prems(3) by auto
  moreover have "decodeError (settled (handle options s e))
      \<or> ProfileOnerror \<in> set es \<or> FrameOnerror \<in> set es"
    using step e Cons.prems(2,4) by auto
  ultimately show ?case
    using Cons.IH [of "handle options s e"] by simp
qed

lemma stalled_started: "stalled started" "\<not> profileLoaded started" "\<not> frameLoaded started"
  by (simp_all add: stalled_def started_def)

lemma decode_failure:
  assumes "ProfileOnerror \<in> set events \<and> (\<forall>img. ProfileOnload img \<notin> set events)
         \<or> FrameOnerror \<in> set events \<and> (\<forall>img. FrameOnload img \<notin> set events)"
  shows "decodeError (settled (mergeImages True options events))"
  using assms profile_never_loads [OF stalled_started(1,2), of events options]
    frame_never_loads [OF stalled_started(1,3), of events options]
  by (auto simp: mergeImages_def)

lemma loads_eq:
  assumes "loads = [ProfileOnload p, FrameOnload f] \<or> loads = [FrameOnload f, ProfileOnload p]"
  shows "foldl (handle options) started loads = tryMerge options (bothLoaded p f)"
  using assms by (auto simp: tryMerge_not_loaded started_def bothLoaded_def)

lemma bothLoaded_fields:
  "canvas (bothLoaded p f) = newCanvas" "profile (bothLoaded p f) = p" "frame (bothLoaded p f) = f"
  "profileLoaded (bothLoaded p f)" "frameLoaded (bothLoaded p f)"
  "pendingBlobs (bothLoaded p f) = 0" "settled (bothLoaded p f) = Pending"
  by (simp_all add: bothLoaded_def started_def)

lemma tryMerge_error:
  assumes "fst (renderCompositeToCanvas newCanvas p f (withDefaults options)) = Some e"
  shows "settled (tryMerge options (bothLoaded p f)) = Rejected e"
        "liveUrls (tryMerge options (bothLoaded p f)) = {}"
proof -
  obtain c where "renderCompositeToCanvas newCanvas p f (withDefaults options) = (Some e, c)"
    using assms by (cases "renderCompositeToCanvas newCanvas p f (withDefaults options)") simp
  then have t: "tryMerge options (bothLoaded p f) =
      reject e (revokeObjectURL FrameUrl (revokeObjectURL ProfileUrl (bothLoaded p f\<lparr>canvas := c\<rparr>)))"
    by (simp add: tryMerge_def bothLoaded_fields)
  show "settled (tryMerge options (bothLoaded p f)) = Rejected e"
    unfolding t by (simp add: reject_def revokeObjectURL_def bothLoaded_fields)
  show "liveUrls (tryMerge options (bothLoaded p f)) = {}"
    unfolding t by (simp add: reject_fields revoke_both)
qed

lemma tryMerge_rendered:
  assumes "validDimensions p f"
  shows "tryMerge options (bothLoaded p f) =
           bothLoaded p f\<lparr>canvas := snd (renderCompositeToCanvas newCanvas p f (withDefaults options)),
                          pendingBlobs := 1\<rparr>"
  by (simp add: tryMerge_def bothLoaded_fields render_valid [OF assms])

lemma blob_callback:
  assumes "validDimensions p f"
  shows "settled (handle options (tryMerge options (bothLoaded p f)) (BlobCallback (Some png)))
           = Resolved png"
        "settled (handle options (tryMerge options (bothLoaded p f)) (BlobCallback None))
           = Rejected (Error ''Failed to create blob'')"
        "settled (tryMerge options (bothLoaded p f)) = Pending"
  unfolding tryMerge_rendered [OF assms]
  by (simp_all add: resolve_def reject_def revokeObjectURL_def bothLoaded_fields)

lemma blob_callback_urls:
  assumes "validDimensions p f"
  shows "liveUrls (handle options (tryMerge options (bothLoaded p f)) (BlobCallback b)) = {}"
  unfolding tryMerge_rendered [OF assms]
  by (simp add: settle_fields revoke_both split: option.split)

text \<open>
  Claim C6. Whatever events arrive, a settled promise of \<open>mergeImages\<close> means that both
  object URLs have been revoked, and without a 2D context the promise is rejected before
  either URL exists. If an image fires \<open>onerror\<close> and never \<open>onload\<close>, the promise is
  rejected with a decode error. Once both images have loaded, in either order, an error
  thrown by \<open>renderCompositeToCanvas\<close> is the rejection of the promise, which for
  invalid dimensions is \<open>Invalid image dimensions\<close>; otherwise the promise stays pending
  until the callback of \<open>toBlob\<close>, which resolves it with the blob or rejects it with
  \<open>Failed to create blob\<close>. On each of these paths no URL is left.
\<close>

theorem mergeImages_releases_urls:
  "(settled (mergeImages ctx options events) \<noteq> Pending \<longrightarrow>
      liveUrls (mergeImages ctx options events) = {})
   \<and> (\<not> ctx \<longrightarrow>
        settled (mergeImages ctx options events) = Rejected (Error ''Could not get canvas context'')
      \<and> liveUrls (mergeImages ctx options events) = {})
   \<and> (ctx \<and> (ProfileOnerror \<in> set events \<and> (\<forall>img. ProfileOnload img \<notin> set events)
              \<or> FrameOnerror \<in> set events \<and> (\<forall>img. FrameOnload img \<notin> set events)) \<longrightarrow>
        decodeError (settled (mergeImages ctx options events))
      \<and> liveUrls (mergeImages ctx options events) = {})
   \<and> (ctx \<and> (loads = [ProfileOnload p, FrameOnload f] \<or> loads = [FrameOnload f, ProfileOnload p]) \<longrightarrow>
        (\<forall>e. fst (renderCompositeToCanvas newCanvas p f (withDefaults options)) = Some e \<longrightarrow>
               settled (mergeImages ctx options loads) = Rejected e
             \<and> liveUrls (mergeImages ctx options loads) = {})
      \<and> (\<not> validDimensions p f \<longrightarrow>
            settled (mergeImages ctx options loads) = Rejected (Error ''Invalid image dimensions''))
      \<and> (validDimensions p f \<longrightarrow>
            settled (mergeImages ctx options loads) = Pending
          \<and> settled (mergeImages ctx options (loads @ [BlobCallback (Some png)])) = Resolved png
          \<and> liveUrls (mergeImages ctx options (loads @ [BlobCallback (Some png)])) = {}
          \<and> settled (mergeImages ctx options (loads @ [BlobCallback None])) =
              Rejected (Error ''Failed to create blob'')
          \<and> liveUrls (mergeImages ctx options (loads @ [BlobCallback None])) = {}))"
proof (intro conjI impI allI)
  show "liveUrls (mergeImages ctx options events) = {}"
    if "settled (mergeImages ctx options events) \<noteq> Pending"
    using released_mergeImages [of ctx options events] that by (simp add: released_def)
next
  assume "\<not> ctx"
  then show "settled (mergeImages ctx options events) =
      Rejected (Error ''Could not get canvas context'')"
    and "liveUrls (mergeImages ctx options events) = {}"
    by (simp_all add: mergeImages_def reject_def started_def)
next
  assume a: "ctx \<and> (ProfileOnerror \<in> set events \<and> (\<forall>img. ProfileOnload img \<notin> set events)
              \<or> FrameOnerror \<in> set events \<and> (\<forall>img. FrameOnload img \<notin> set events))"
  then have d: "decodeError (settled (mergeImages True options events))"
    using decode_failure [of events options] by blast
  then show "decodeError (settled (mergeImages ctx options events))"
    using a by simp
  have "settled (mergeImages True options events) \<noteq> Pending"
    using d by (auto simp: decodeError_def)
  then show "liveUrls (mergeImages ctx options events) = {}"
    using released_mergeImages [of True options events] a by (simp add: released_def)
next
  fix e
  assume a: "ctx \<and> (loads = [ProfileOnload p, FrameOnload f]
                    \<or> loads = [FrameOnload f, ProfileOnload p])"
    and e: "fst (renderCompositeToCanvas newCanvas p f (withDefaults options)) = Some e"
  have m: "mergeImages ctx options loads = tryMerge options (bothLoaded p f)"
    using a loads_eq [of loads p f options] by (simp add: mergeImages_def)
  show "settled (mergeImages ctx options loads) = Rejected e"
    and "liveUrls (mergeImages ctx options loads) = {}"
    unfolding m by (rule tryMerge_error [OF e])+
next
  assume a: "ctx \<and> (loads = [ProfileOnload p, FrameOnload f]
                    \<or> loads = [FrameOnload f, ProfileOnload p])"
    and v: "\<not> validDimensions p f"
  have m: "mergeImages ctx options loads = tryMerge options (bothLoaded p f)"
    using a loads_eq [of loads p f options] by (simp add: mergeImages_def)
  have "fst (renderCompositeToCanvas newCanvas p f (withDefaults options)) =
      Some (Error ''Invalid image dimensions'')"
    by (simp add: render_invalid [OF v])
  then show "settled (mergeImages ctx options loads) = Rejected (Error ''Invalid image dimensions'')"
    unfolding m by (rule tryMerge_error)
next
  assume a: "ctx \<and> (loads = [ProfileOnload p, FrameOnload f]
                    \<or> loads = [FrameOnload f, ProfileOnload p])"
    and v: "validDimensions p f"
  have m: "mergeImages ctx options (loads @ es) =
      foldl (handle options) (tryMerge options (bothLoaded p f)) es" for es
    using a loads_eq [of loads p f options] by (simp add: mergeImages_def)
  show "settled (mergeImages ctx options loads) = Pending"
    using m [of "[]"] by (simp only: append_Nil2 foldl_Nil blob_callback [OF v])
  show "settled (mergeImages ctx options (loads @ [BlobCallback (Some png)])) = Resolved png"
    unfolding m by (simp only: foldl_Cons foldl_Nil blob_callback [OF v])
  show "liveUrls (mergeImages ctx options (loads @ [BlobCallback (Some png)])) = {}"
    unfolding m by (simp only: foldl_Cons foldl_Nil blob_callback_urls [OF v])
  show "settled (mergeImages ctx options (loads @ [BlobCallback None])) =
      Rejected (Error ''Failed to create blob'')"
    unfolding m by (simp only: foldl_Cons foldl_Nil blob_callback [OF v])
  show "liveUrls (mergeImages ctx options (loads @ [BlobCallback None])) = {}"
    unfolding m by (simp only: foldl_Cons foldl_Nil blob_callback_urls [OF v])
qed

theorem mergeImages_releases_urls_witness:
  "settled (mergeImages True noOptions [FrameOnload ringFrame, ProfileOnerror]) =
     Rejected (Error ''Failed to load profile image'')
   \<and> liveUrls (mergeImages True noOptions [FrameOnload ringFrame, ProfileOnerror]) = {}
   \<and> settled (mergeImages True noOptions [ProfileOnload undecoded, FrameOnload ringFrame]) =
       Rejected (Error ''Invalid image dimensions'')
   \<and> liveUrls (mergeImages True noOptions [ProfileOnload undecoded, FrameOnload ringFrame]) = {}
   \<and> settled (mergeImages True noOptions
        ([ProfileOnload portrait, FrameOnload ringFrame] @ [BlobCallback None])) =
       Rejected (Error ''Failed to create blob'')
   \<and> liveUrls (mergeImages True noOptions
        ([ProfileOnload portrait, FrameOnload ringFrame] @ [BlobCallback None])) = {}
   \<and> settled (mergeImages True noOptions
        ([ProfileOnload portrait, FrameOnload ringFrame] @ [BlobCallback (Some (Png newCanvas))])) =
       Resolved (Png newCanvas)
   \<and> liveUrls (mergeImages True noOptions
        ([ProfileOnload portrait, FrameOnload ringFrame] @ [BlobCallback (Some (Png newCanvas))])) = {}"
proof -
  let ?fail = "[FrameOnload ringFrame, ProfileOnerror]"
  let ?bad = "[ProfileOnload undecoded, FrameOnload ringFrame]"
  let ?good = "[ProfileOnload portrait, FrameOnload ringFrame]"
  note fail = mergeImages_releases_urls [where ctx = True and options = noOptions
      and events = ?fail]
  note bad = mergeImages_releases_urls [where ctx = True and options = noOptions
      and events = ?bad and loads = ?bad and p = undecoded and f = ringFrame]
  note good = mergeImages_releases_urls [where ctx = True and options = noOptions
      and loads = ?good and p = portrait and f = ringFrame and png = "Png newCanvas"]
  have "ProfileOnerror \<in> set ?fail \<and> (\<forall>img. ProfileOnload img \<notin> set ?fail)"
    by simp
  then have "decodeError (settled (mergeImages True noOptions ?fail))"
    and f2: "liveUrls (mergeImages True noOptions ?fail) = {}"
    using fail by blast+
  moreover have "settled (mergeImages True noOptions ?fail) \<noteq>
      Rejected (Error ''Failed to load frame image'')"
    by (simp add: mergeImages_def started_def tryMerge_def reject_def revokeObjectURL_def)
  ultimately have f1: "settled (mergeImages True noOptions ?fail) =
      Rejected (Error ''Failed to load profile image'')"
    by (simp add: decodeError_def)
  have b1: "settled (mergeImages True noOptions ?bad) = Rejected (Error ''Invalid image dimensions'')"
    using bad valid_examples(3) by blast
  then have b2: "liveUrls (mergeImages True noOptions ?bad) = {}"
    using bad by simp
  have g: "settled (mergeImages True noOptions (?good @ [BlobCallback None])) =
        Rejected (Error ''Failed to create blob'')"
      "liveUrls (mergeImages True noOptions (?good @ [BlobCallback None])) = {}"
      "settled (mergeImages True noOptions (?good @ [BlobCallback (Some (Png newCanvas))])) =
        Resolved (Png newCanvas)"
      "liveUrls (mergeImages True noOptions (?good @ [BlobCallback (Some (Png newCanvas))])) = {}"
    using good valid_examples(1) by blast+
  show ?thesis
    using f1 f2 b1 b2 g by blast
qed

end
